theory Spec2Isabelle
  imports Complex_Main "HOL-Library.Sublist"
begin

section \<open>The JavaScript values the analysis service reads\<close>

text \<open>
  The service (class \<open>AIService\<close>) takes answers of type \<open>any\<close>. An answer is a JSON
  value stored with the response, or \<open>undefined\<close> when the field is missing. A number is
  the not-a-number value, an infinity, negative zero, or a finite value, given as a
  rational (every finite double is one). Strings are lists of characters, one \<open>char\<close>
  per code unit (ASCII text), so \<open>length\<close> is the \<open>.length\<close> of the source.
\<close>

datatype jsnum = NaN | PosInfinity | NegInfinity | NegZero | Fin rat

datatype jsval =
    JNull
  | JUndefined
  | JBool bool
  | JNum jsnum
  | JStr string
  | JArr "jsval list"
  | JObj "(string \<times> jsval) list"

subsection \<open>The host\<close>

text \<open>
  What the JavaScript host and the \<open>date-fns\<close> library supply and the repository does
  not define: the decimal form of a number that is not a safe integer (shortest digits
  that read back as the same double, with an exponent for large and small values), the
  parse of a date string (implementation-defined beyond the ISO format; \<open>None\<close> is the
  time value \<open>NaN\<close>), the locale's rendering of a valid date, the \<open>PPP\<close> rendering of
  \<open>date-fns\<close>, and \<open>JSON.stringify(v, null, 2)\<close>.
\<close>

record host =
  Number_toString :: "rat \<Rightarrow> string"
  Date_parse :: "string \<Rightarrow> int option"
  locale_date_string :: "int \<Rightarrow> string"
  format_PPP :: "int \<Rightarrow> string"
  JSON_stringify :: "jsval \<Rightarrow> string"

subsection \<open>Conversion to string\<close>

text \<open>\<open>String(n)\<close> for a natural number: its decimal digits.\<close>

fun String_nat :: "nat \<Rightarrow> string" where
  "String_nat n =
     (if n < 10 then [''0123456789'' ! n]
      else String_nat (n div 10) @ [''0123456789'' ! (n mod 10)])"

declare String_nat.simps [simp del]

definition String_int :: "int \<Rightarrow> string" where
  "String_int i = (if i < 0 then ''-'' @ String_nat (nat (- i)) else String_nat (nat i))"

text \<open>
  \<open>String(n)\<close> for a number. An integer of size at most \<open>2^53\<close> (a safe integer) is
  written with all its digits; the host writes every other finite value.
\<close>

fun String_num :: "host \<Rightarrow> jsnum \<Rightarrow> string" where
  "String_num h NaN = ''NaN''"
| "String_num h PosInfinity = ''Infinity''"
| "String_num h NegInfinity = ''-Infinity''"
| "String_num h NegZero = ''0''"
| "String_num h (Fin q) =
     (if of_int \<lfloor>q\<rfloor> = q \<and> \<bar>q\<bar> \<le> 9007199254740992 then String_int \<lfloor>q\<rfloor>
      else Number_toString h q)"

text \<open>
  \<open>Array.prototype.join\<close> on strings already converted: the separator stands between
  neighbours only, and the empty array gives the empty string.
\<close>

fun join_strings :: "string \<Rightarrow> string list \<Rightarrow> string" where
  "join_strings sep [] = []"
| "join_strings sep [s] = s"
| "join_strings sep (s # t # ts) = s @ sep @ join_strings sep (t # ts)"

subsection \<open>Exceptions\<close>

text \<open>
  A function that can throw returns a sum: \<open>Inl\<close> the error thrown, \<open>Inr\<close> the value
  returned. \<open>bind_js\<close> sequences two steps, the second not run when the first throws;
  \<open>map_js\<close> is \<open>xs.map(f)\<close> (or a \<open>forEach\<close> that pushes \<open>f(x)\<close>), which stops at
  the first element on which \<open>f\<close> throws.
\<close>

datatype js_error = RangeError | TypeError

definition bind_js :: "js_error + 'a \<Rightarrow> ('a \<Rightarrow> js_error + 'b) \<Rightarrow> js_error + 'b" where
  "bind_js m f = (case m of Inl e \<Rightarrow> Inl e | Inr v \<Rightarrow> f v)"

primrec map_js :: "('a \<Rightarrow> js_error + 'b) \<Rightarrow> 'a list \<Rightarrow> js_error + 'b list" where
  "map_js f [] = Inr []"
| "map_js f (x # xs) = bind_js (f x) (\<lambda>y. bind_js (map_js f xs) (\<lambda>ys. Inr (y # ys)))"

subsection \<open>String(v), template literals and join\<close>

text \<open>
  \<open>String(v)\<close> (the abstract operation ToString, which a template literal and
  \<open>join\<close> also apply) can throw. On an object it looks up \<open>toString\<close>, then
  \<open>valueOf\<close>, and calls the first that is callable and returns a primitive. For a plain
  object that is \<open>Object.prototype.toString\<close>, which gives \<open>[object Object]\<close>; but an own
  key \<open>toString\<close> of a JSON object hides it with a value that is not callable,
  \<open>valueOf\<close> returns the object itself, and the conversion throws a \<open>TypeError\<close>. An
  array converts by joining its elements with a comma, so it throws when the conversion
  of an element does; \<open>null\<close> and \<open>undefined\<close> elements are not converted and give
  the empty string.
\<close>

fun String_throws :: "jsval \<Rightarrow> bool" where
  "String_throws (JObj kvs) = (''toString'' \<in> set (map fst kvs))"
| "String_throws (JArr xs) = list_ex String_throws xs"
| "String_throws v = False"

text \<open>The text that \<open>String(v)\<close> returns when it does not throw.\<close>

fun String_text :: "host \<Rightarrow> jsval \<Rightarrow> string" where
  "String_text h JNull = ''null''"
| "String_text h JUndefined = ''undefined''"
| "String_text h (JBool b) = (if b then ''true'' else ''false'')"
| "String_text h (JNum n) = String_num h n"
| "String_text h (JStr s) = s"
| "String_text h (JArr xs) =
     join_strings '',''
       (map (\<lambda>x. if x = JNull \<or> x = JUndefined then [] else String_text h x) xs)"
| "String_text h (JObj kvs) = ''[object Object]''"

definition String_js :: "host \<Rightarrow> jsval \<Rightarrow> js_error + string" where
  "String_js h v = (if String_throws v then Inl TypeError else Inr (String_text h v))"

text \<open>\<open>xs.join(sep)\<close> on an array of values: it converts each element as above.\<close>

definition join :: "host \<Rightarrow> string \<Rightarrow> jsval list \<Rightarrow> js_error + string" where
  "join h sep xs =
     bind_js
       (map_js (\<lambda>x. if x = JNull \<or> x = JUndefined then Inr [] else String_js h x) xs)
       (\<lambda>texts. Inr (join_strings sep texts))"

subsection \<open>Truthiness, type tests, string operations\<close>

text \<open>The values that \<open>!v\<close> takes to \<open>true\<close> are the falsy ones.\<close>

fun truthy :: "jsval \<Rightarrow> bool" where
  "truthy JNull = False"
| "truthy JUndefined = False"
| "truthy (JBool b) = b"
| "truthy (JNum n) = (n \<noteq> NaN \<and> n \<noteq> NegZero \<and> n \<noteq> Fin 0)"
| "truthy (JStr s) = (s \<noteq> [])"
| "truthy (JArr xs) = True"
| "truthy (JObj kvs) = True"

fun isArray :: "jsval \<Rightarrow> bool" where
  "isArray (JArr xs) = True"
| "isArray v = False"

fun isString :: "jsval \<Rightarrow> bool" where
  "isString (JStr s) = True"
| "isString v = False"

text \<open>\<open>typeof v === 'object'\<close>: objects, arrays and \<open>null\<close>.\<close>

fun isObjectType :: "jsval \<Rightarrow> bool" where
  "isObjectType JNull = True"
| "isObjectType (JArr xs) = True"
| "isObjectType (JObj kvs) = True"
| "isObjectType v = False"

text \<open>\<open>v.length\<close> of a string or an array (the source reads it on those only).\<close>

fun length_js :: "jsval \<Rightarrow> nat" where
  "length_js (JStr s) = length s"
| "length_js (JArr xs) = length xs"
| "length_js v = 0"

fun elements :: "jsval \<Rightarrow> jsval list" where
  "elements (JArr xs) = xs"
| "elements v = []"

text \<open>\<open>s.toLowerCase()\<close> on ASCII text: the letters A to Z go to a to z.\<close>

definition toLowerCase_char :: "char \<Rightarrow> char" where
  "toLowerCase_char c =
     (case map_of (zip ''ABCDEFGHIJKLMNOPQRSTUVWXYZ'' ''abcdefghijklmnopqrstuvwxyz'') c of
        Some d \<Rightarrow> d
      | None \<Rightarrow> c)"

definition toLowerCase :: "string \<Rightarrow> string" where
  "toLowerCase s = map toLowerCase_char s"

text \<open>\<open>s.startsWith(k)\<close> and \<open>s.includes(k)\<close>: \<open>k\<close> occurs in \<open>s\<close> as a block.\<close>

primrec startsWith :: "string \<Rightarrow> string \<Rightarrow> bool" where
  "startsWith s [] = True"
| "startsWith s (c # cs) = (case s of [] \<Rightarrow> False | d # ds \<Rightarrow> c = d \<and> startsWith ds cs)"

primrec includes_str :: "string \<Rightarrow> string \<Rightarrow> bool" where
  "includes_str [] k = (k = [])"
| "includes_str (c # cs) k = (startsWith (c # cs) k \<or> includes_str cs k)"

text \<open>\<open>xs.some(p)\<close>.\<close>

primrec some :: "('a \<Rightarrow> bool) \<Rightarrow> 'a list \<Rightarrow> bool" where
  "some p [] = False"
| "some p (x # xs) = (p x \<or> some p xs)"

text \<open>\<open>s.padStart(n, c)\<close> with a one-character pad.\<close>

definition padStart :: "nat \<Rightarrow> char \<Rightarrow> string \<Rightarrow> string" where
  "padStart n c s = replicate (n - length s) c @ s"

text \<open>
  \<open>[...new Set(xs)]\<close>: a \<open>Set\<close> keeps its elements in insertion order and ignores an
  element it already holds, so the spread is the list of first occurrences.
\<close>

fun Set_add_all :: "'a list \<Rightarrow> 'a list \<Rightarrow> 'a list" where
  "Set_add_all acc [] = acc"
| "Set_add_all acc (x # xs) =
     (if x \<in> set acc then Set_add_all acc xs else Set_add_all (acc @ [x]) xs)"

definition spread_Set :: "'a list \<Rightarrow> 'a list" where
  "spread_Set xs = Set_add_all [] xs"

section \<open>Which answers count: isValidResponse\<close>

definition isValidResponse :: "jsval \<Rightarrow> bool" where
  "isValidResponse answer =
     (if \<not> truthy answer then False
      else if answer = JStr '''' then False
      else if isArray answer \<and> length_js answer = 0 then False
      else if answer = JStr ''No answer provided'' then False
      else True)"

section \<open>Dates\<close>

text \<open>A \<open>Date\<close> object: invalid, or a time value in milliseconds since the epoch.\<close>

datatype jsdate = Invalid_Date | Date_at int

text \<open>
  \<open>TimeClip\<close> of a number: a time value is finite, at most 8.64e15 in size, and
  whole (a fraction is cut off towards zero).
\<close>

definition truncate :: "rat \<Rightarrow> int" where
  "truncate q = (if q < 0 then - \<lfloor>- q\<rfloor> else \<lfloor>q\<rfloor>)"

fun TimeClip :: "jsnum \<Rightarrow> jsdate" where
  "TimeClip NaN = Invalid_Date"
| "TimeClip PosInfinity = Invalid_Date"
| "TimeClip NegInfinity = Invalid_Date"
| "TimeClip NegZero = Date_at 0"
| "TimeClip (Fin q) = (if \<bar>q\<bar> \<le> 8640000000000000 then Date_at (truncate q) else Invalid_Date)"

definition Date_of_string :: "host \<Rightarrow> string \<Rightarrow> jsdate" where
  "Date_of_string h s = (case Date_parse h s of None \<Rightarrow> Invalid_Date | Some t \<Rightarrow> Date_at t)"

text \<open>
  \<open>new Date(v)\<close>: a string is parsed; an object or an array is converted to a string
  first, which throws where \<open>String(v)\<close> does, and the string is parsed; anything else
  is converted to a number and clipped.
\<close>

fun new_Date :: "host \<Rightarrow> jsval \<Rightarrow> js_error + jsdate" where
  "new_Date h JNull = Inr (Date_at 0)"
| "new_Date h JUndefined = Inr Invalid_Date"
| "new_Date h (JBool b) = Inr (Date_at (if b then 1 else 0))"
| "new_Date h (JNum n) = Inr (TimeClip n)"
| "new_Date h (JStr s) = Inr (Date_of_string h s)"
| "new_Date h (JArr xs) =
     bind_js (String_js h (JArr xs)) (\<lambda>s. Inr (Date_of_string h s))"
| "new_Date h (JObj kvs) =
     bind_js (String_js h (JObj kvs)) (\<lambda>s. Inr (Date_of_string h s))"

text \<open>
  \<open>d.toLocaleDateString()\<close> does not throw on an invalid date: it returns the string
  \<open>Invalid Date\<close>. The \<open>format\<close> of \<open>date-fns\<close> throws a \<open>RangeError\<close> on one.
\<close>

fun toLocaleDateString :: "host \<Rightarrow> jsdate \<Rightarrow> js_error + string" where
  "toLocaleDateString h Invalid_Date = Inr ''Invalid Date''"
| "toLocaleDateString h (Date_at t) = Inr (locale_date_string h t)"

fun format_date_fns :: "host \<Rightarrow> jsdate \<Rightarrow> js_error + string" where
  "format_date_fns h Invalid_Date = Inl RangeError"
| "format_date_fns h (Date_at t) = Inr (format_PPP h t)"

text \<open>
  \<open>try { return body } catch { return handler }\<close>: the handler runs when the body
  throws, and what the handler throws is thrown.
\<close>

definition try_catch :: "js_error + 'a \<Rightarrow> js_error + 'a \<Rightarrow> js_error + 'a" where
  "try_catch body handler = (case body of Inl e \<Rightarrow> handler | Inr v \<Rightarrow> Inr v)"

section \<open>The data of the analysis\<close>

text \<open>
  The records of the source. A field name carries the record's prefix (\<open>r_\<close>, \<open>data_\<close>,
  \<open>req_\<close>, \<open>brd_\<close>), since the functions below use the bare names for their parameters
  and local constants, as the source does.
\<close>

record response =
  r_question :: string
  r_answer :: jsval
  r_questionType :: string

record AIAnalysisRequest =
  data_formTitle :: string
  data_clientName :: string
  data_formDescription :: "string option"
  data_responses :: "response list"

datatype priority = High | Medium | Low

record RequirementItem =
  req_id :: string
  req_category :: string
  req_priority :: priority
  req_description :: string
  req_acceptanceCriteria :: "string list"
  req_businessValue :: string
  req_technicalNotes :: string

record BRDAnalysis =
  brd_executiveSummary :: string
  brd_projectOverview :: string
  brd_businessObjectives :: "string list"
  brd_stakeholders :: "string list"
  brd_requirements :: "RequirementItem list"
  brd_assumptions :: "string list"
  brd_constraints :: "string list"
  brd_risks :: "string list"
  brd_successCriteria :: "string list"

section \<open>The response normalizer: formatAnswer\<close>

text \<open>\<open>AIService.formatAnswer\<close>: the date branch renders with \<open>toLocaleDateString\<close>.\<close>

definition formatAnswer :: "host \<Rightarrow> jsval \<Rightarrow> string \<Rightarrow> js_error + string" where
  "formatAnswer h answer type =
     (if answer = JNull \<or> answer = JUndefined then Inr ''No answer provided''
      else if isArray answer then join h '', '' (elements answer)
      else if type = ''date'' then
        try_catch (bind_js (new_Date h answer) (toLocaleDateString h)) (String_js h answer)
      else if isObjectType answer then Inr (JSON_stringify h answer)
      else String_js h answer)"

text \<open>\<open>BRDGenerator.formatAnswer\<close>: the same, but the date branch uses \<open>format\<close>.\<close>

definition BRDGenerator_formatAnswer :: "host \<Rightarrow> jsval \<Rightarrow> string \<Rightarrow> js_error + string" where
  "BRDGenerator_formatAnswer h answer type =
     (if answer = JNull \<or> answer = JUndefined then Inr ''No answer provided''
      else if isArray answer then join h '', '' (elements answer)
      else if type = ''date'' then
        try_catch (bind_js (new_Date h answer) (format_date_fns h)) (String_js h answer)
      else if isObjectType answer then Inr (JSON_stringify h answer)
      else String_js h answer)"

section \<open>The requirement extractor\<close>

definition categorizeRequirement :: "string \<Rightarrow> string \<Rightarrow> string" where
  "categorizeRequirement question questionType =
     (let questionLower = toLowerCase question in
      if includes_str questionLower ''function'' \<or> includes_str questionLower ''feature'' \<or>
         includes_str questionLower ''capability'' \<or> includes_str questionLower ''what should'' \<or>
         includes_str questionLower ''how should'' \<or> includes_str questionLower ''behavior''
      then ''Functional Requirements''
      else if includes_str questionLower ''performance'' \<or> includes_str questionLower ''speed'' \<or>
         includes_str questionLower ''load'' \<or> includes_str questionLower ''response time'' \<or>
         includes_str questionLower ''throughput'' \<or> includes_str questionLower ''scalability''
      then ''Performance Requirements''
      else if includes_str questionLower ''security'' \<or> includes_str questionLower ''authentication'' \<or>
         includes_str questionLower ''authorization'' \<or> includes_str questionLower ''access'' \<or>
         includes_str questionLower ''permission'' \<or> includes_str questionLower ''privacy''
      then ''Security Requirements''
      else if includes_str questionLower ''interface'' \<or> includes_str questionLower ''ui'' \<or>
         includes_str questionLower ''ux'' \<or> includes_str questionLower ''design'' \<or>
         includes_str questionLower ''layout'' \<or> includes_str questionLower ''appearance''
      then ''User Interface Requirements''
      else if includes_str questionLower ''integration'' \<or> includes_str questionLower ''api'' \<or>
         includes_str questionLower ''external'' \<or> includes_str questionLower ''third-party'' \<or>
         includes_str questionLower ''connect'' \<or> includes_str questionLower ''sync''
      then ''Integration Requirements''
      else if includes_str questionLower ''data'' \<or> includes_str questionLower ''database'' \<or>
         includes_str questionLower ''storage'' \<or> includes_str questionLower ''backup'' \<or>
         includes_str questionLower ''migration'' \<or> includes_str questionLower ''import''
      then ''Data Requirements''
      else if includes_str questionLower ''process'' \<or> includes_str questionLower ''workflow'' \<or>
         includes_str questionLower ''business'' \<or> includes_str questionLower ''procedure'' \<or>
         includes_str questionLower ''approval'' \<or> includes_str questionLower ''review''
      then ''Business Process Requirements''
      else if includes_str questionLower ''compliance'' \<or> includes_str questionLower ''regulation'' \<or>
         includes_str questionLower ''standard'' \<or> includes_str questionLower ''audit'' \<or>
         includes_str questionLower ''legal'' \<or> includes_str questionLower ''policy''
      then ''Compliance Requirements''
      else ''General Requirements'')"

definition highPriorityKeywords :: "string list" where
  "highPriorityKeywords =
     [''critical'', ''essential'', ''must'', ''required'', ''mandatory'', ''urgent'',
      ''important'', ''vital'', ''crucial'', ''necessary'', ''core'', ''primary'']"

definition lowPriorityKeywords :: "string list" where
  "lowPriorityKeywords =
     [''nice to have'', ''optional'', ''future'', ''enhancement'', ''wish'',
      ''would like'', ''could'', ''maybe'', ''eventually'', ''later'']"

text \<open>
  \<open>determinePriority\<close> converts the answer to a string in its second statement, before
  any test: where that conversion throws, the function throws.
\<close>

definition determinePriority :: "host \<Rightarrow> string \<Rightarrow> jsval \<Rightarrow> js_error + priority" where
  "determinePriority h question answer =
     (let questionLower = toLowerCase question in
      bind_js (String_js h answer) (\<lambda>answerString.
        let answerStr = toLowerCase answerString in
        Inr (if some (\<lambda>keyword. includes_str questionLower keyword) highPriorityKeywords then High
             else if some (\<lambda>keyword. includes_str questionLower keyword) lowPriorityKeywords then Low
             else if some (\<lambda>keyword. includes_str answerStr keyword) highPriorityKeywords then High
             else if some (\<lambda>keyword. includes_str answerStr keyword) lowPriorityKeywords then Low
             else if isString answer \<and> length_js answer > 100 then High
             else if isArray answer \<and> length_js answer > 3 then High
             else Medium)))"

text \<open>\<open>question.toLowerCase().replace(/[?:]/g, '')\<close>: every ? and : is removed.\<close>

definition question_phrase :: "string \<Rightarrow> string" where
  "question_phrase question =
     filter (\<lambda>c. c \<noteq> CHR ''?'' \<and> c \<noteq> CHR '':'') (toLowerCase question)"

definition formatRequirementDescription ::
  "host \<Rightarrow> string \<Rightarrow> jsval \<Rightarrow> string \<Rightarrow> js_error + string" where
  "formatRequirementDescription h question answer questionType =
     bind_js (formatAnswer h answer questionType) (\<lambda>formattedAnswer.
       Inr (if questionType = ''checkbox'' \<and> isArray answer then
              ''The system shall support '' @ question_phrase question @
              '' with the following capabilities: '' @ formattedAnswer
            else if questionType = ''radio'' \<or> questionType = ''select'' then
              ''For '' @ question_phrase question @ '', the system shall implement: '' @
              formattedAnswer
            else if questionType = ''number'' then
              ''The system shall meet the requirement for '' @ question_phrase question @
              '' with a value of '' @ formattedAnswer
            else if questionType = ''date'' then
              ''The system shall handle '' @ question_phrase question @
              '' with the specified date: '' @ formattedAnswer
            else ''Regarding '' @ question_phrase question @ '': '' @ formattedAnswer))"

definition baseCriteria :: "string list" where
  "baseCriteria =
     [''Requirement is clearly defined and testable'',
      ''Implementation meets specified functionality'',
      ''User acceptance testing passes successfully'']"

text \<open>
  The criteria of the question type. The template literals convert each checkbox item,
  and the answer of a number question, to a string.
\<close>

definition typeCriteria :: "host \<Rightarrow> jsval \<Rightarrow> string \<Rightarrow> js_error + string list" where
  "typeCriteria h answer questionType =
     (if questionType = ''checkbox'' \<and> isArray answer then
        bind_js
          (map_js (\<lambda>item. bind_js (String_js h item)
                     (\<lambda>text. Inr (''System successfully supports: '' @ text)))
             (elements answer))
          (\<lambda>lines. Inr (lines @ [''All selected options are fully functional'']))
      else if questionType = ''number'' then
        bind_js (String_js h answer) (\<lambda>text.
          Inr [''Numeric value validation is implemented ('' @ text @ '')'',
               ''Input constraints are properly enforced''])
      else if questionType = ''email'' then
        Inr [''Email format validation is implemented'',
             ''Invalid email addresses are rejected'']
      else if questionType = ''date'' then
        Inr [''Date picker functionality is available'',
             ''Date format validation is implemented'',
             ''Invalid dates are handled appropriately'']
      else Inr [])"

definition contextCriteria :: "string \<Rightarrow> string list" where
  "contextCriteria questionLower =
     (if includes_str questionLower ''security'' then
        [''Security requirements are met and verified'',
         ''Access controls are properly implemented'']
      else []) @
     (if includes_str questionLower ''performance'' then
        [''Performance benchmarks are met'',
         ''Load testing validates performance requirements'']
      else []) @
     (if includes_str questionLower ''integration'' then
        [''Integration points are tested and functional'',
         ''Data flow between systems is verified'']
      else [])"

text \<open>
  The source pushes onto one array \<open>criteria\<close>: the three base criteria, then the criteria
  of the question type, then those of the question's content.
\<close>

definition generateAcceptanceCriteria ::
  "host \<Rightarrow> string \<Rightarrow> jsval \<Rightarrow> string \<Rightarrow> js_error + string list" where
  "generateAcceptanceCriteria h question answer questionType =
     (let questionLower = toLowerCase question;
          criteria = [];
          criteria = criteria @ baseCriteria
      in bind_js (typeCriteria h answer questionType) (\<lambda>typeLines.
           let criteria = criteria @ typeLines;
               criteria = criteria @ contextCriteria questionLower
           in Inr criteria))"

definition assessBusinessValue :: "host \<Rightarrow> string \<Rightarrow> jsval \<Rightarrow> js_error + string" where
  "assessBusinessValue h question answer =
     (let questionLower = toLowerCase question in
      bind_js (String_js h answer) (\<lambda>answerString.
      let answerStr = toLowerCase answerString in
      Inr (
      if includes_str questionLower ''revenue'' \<or> includes_str questionLower ''profit'' \<or>
         includes_str questionLower ''cost'' \<or> includes_str answerStr ''money''
      then ''High - Direct financial impact on business operations''
      else if includes_str questionLower ''customer'' \<or> includes_str questionLower ''user'' \<or>
         includes_str questionLower ''client'' \<or> includes_str answerStr ''satisfaction''
      then ''High - Improves customer experience and satisfaction''
      else if includes_str questionLower ''efficiency'' \<or> includes_str questionLower ''productivity'' \<or>
         includes_str questionLower ''automation'' \<or> includes_str answerStr ''faster''
      then ''Medium - Enhances operational efficiency''
      else if includes_str questionLower ''compliance'' \<or> includes_str questionLower ''regulation'' \<or>
         includes_str questionLower ''legal'' \<or> includes_str answerStr ''required''
      then ''High - Ensures regulatory compliance and risk mitigation''
      else if includes_str questionLower ''reporting'' \<or> includes_str questionLower ''analytics'' \<or>
         includes_str questionLower ''insight'' \<or> includes_str answerStr ''decision''
      then ''Medium - Supports data-driven decision making''
      else ''Medium - Supports business objectives and user needs'')))"

definition generateTechnicalNotes :: "string \<Rightarrow> jsval \<Rightarrow> string \<Rightarrow> string" where
  "generateTechnicalNotes question answer questionType =
     (let questionLower = toLowerCase question;
          notes =
            (if questionType = ''checkbox'' \<or> questionType = ''radio'' then
               [''Consider using enumeration or configuration-driven approach''] else []) @
            (if questionType = ''number'' then
               [''Implement proper input validation and range checking''] else []) @
            (if questionType = ''date'' then
               [''Consider timezone handling and date format localization''] else []) @
            (if questionType = ''email'' then
               [''Implement RFC-compliant email validation''] else []) @
            (if includes_str questionLower ''integration'' then
               [''Design with API versioning and error handling in mind''] else []) @
            (if includes_str questionLower ''security'' then
               [''Follow security best practices and conduct security review''] else []) @
            (if includes_str questionLower ''performance'' then
               [''Consider caching strategies and performance monitoring''] else [])
      in join_strings ''; '' notes)"

text \<open>The id of requirement number \<open>reqId\<close>: \<open>REQ-\<close> and the number padded to 3 digits.\<close>

definition requirement_id :: "nat \<Rightarrow> string" where
  "requirement_id reqId = ''REQ-'' @ padStart 3 (CHR ''0'') (String_nat reqId)"

text \<open>
  The requirement of one valid response: the body of the \<open>if\<close> in the loop of
  \<open>extractRequirements\<close>, in the order of its statements.
\<close>

definition makeRequirement :: "host \<Rightarrow> nat \<Rightarrow> response \<Rightarrow> js_error + RequirementItem" where
  "makeRequirement h reqId r =
     (let category = categorizeRequirement (r_question r) (r_questionType r) in
      bind_js (determinePriority h (r_question r) (r_answer r)) (\<lambda>priority.
      bind_js (formatRequirementDescription h (r_question r) (r_answer r) (r_questionType r))
        (\<lambda>description.
      bind_js (generateAcceptanceCriteria h (r_question r) (r_answer r) (r_questionType r))
        (\<lambda>acceptanceCriteria.
      bind_js (assessBusinessValue h (r_question r) (r_answer r)) (\<lambda>businessValue.
      let technicalNotes = generateTechnicalNotes (r_question r) (r_answer r) (r_questionType r)
      in Inr \<lparr> req_id = requirement_id reqId,
               req_category = category,
               req_priority = priority,
               req_description = description,
               req_acceptanceCriteria = acceptanceCriteria,
               req_businessValue = businessValue,
               req_technicalNotes = technicalNotes \<rparr>)))))"

text \<open>
  The body of the \<open>forEach\<close> in \<open>extractRequirements\<close>, on the state it updates: the
  array \<open>requirements\<close> and the counter \<open>reqId\<close>. \<open>forEach_js\<close> runs a body over a
  list, threading the state; a body that throws ends the loop and the function.
\<close>

definition extract_step ::
  "host \<Rightarrow> RequirementItem list \<times> nat \<Rightarrow> response \<Rightarrow> js_error + RequirementItem list \<times> nat" where
  "extract_step h st r =
     (case st of (requirements, reqId) \<Rightarrow>
        if isValidResponse (r_answer r)
        then bind_js (makeRequirement h reqId r)
               (\<lambda>item. Inr (requirements @ [item], reqId + 1))
        else Inr (requirements, reqId))"

primrec forEach_js :: "('s \<Rightarrow> 'a \<Rightarrow> js_error + 's) \<Rightarrow> 's \<Rightarrow> 'a list \<Rightarrow> js_error + 's" where
  "forEach_js body st [] = Inr st"
| "forEach_js body st (x # xs) = bind_js (body st x) (\<lambda>st'. forEach_js body st' xs)"

definition extractRequirements :: "host \<Rightarrow> response list \<Rightarrow> js_error + RequirementItem list" where
  "extractRequirements h rs =
     bind_js (forEach_js (extract_step h) ([], 1) rs) (\<lambda>st. Inr (fst st))"

section \<open>The narrative synthesizer\<close>

text \<open>
  The text of one response, the template \<open>${r.question} ${r.answer}\<close>, which converts
  the answer to a string; and the lower-cased text of all responses, joined by spaces.
\<close>

definition response_text :: "host \<Rightarrow> response \<Rightarrow> js_error + string" where
  "response_text h r =
     bind_js (String_js h (r_answer r)) (\<lambda>text. Inr (r_question r @ '' '' @ text))"

definition all_text :: "host \<Rightarrow> response list \<Rightarrow> js_error + string" where
  "all_text h responses =
     bind_js (map_js (response_text h) responses)
       (\<lambda>texts. Inr (toLowerCase (join_strings '' '' texts)))"

text \<open>
  The table \<open>objectiveKeywords\<close>. \<open>Object.entries\<close> lists the string keys of an object
  literal in the order they are written.
\<close>

definition objectiveKeywords :: "(string \<times> string) list" where
  "objectiveKeywords =
     [(''efficiency'', ''Improve operational efficiency and streamline processes''),
      (''customer'', ''Enhance customer experience and satisfaction''),
      (''automation'', ''Automate manual processes to reduce errors and save time''),
      (''integration'', ''Integrate systems for better data flow and coordination''),
      (''reporting'', ''Provide comprehensive reporting and analytics capabilities''),
      (''security'', ''Strengthen security measures and ensure data protection''),
      (''scalability'', ''Build scalable solutions to support business growth''),
      (''compliance'', ''Ensure regulatory compliance and risk management'')]"

definition defaultObjectives :: "string list" where
  "defaultObjectives =
     [''Deliver a solution that meets specified requirements'',
      ''Ensure user satisfaction and system usability'',
      ''Maintain system reliability and performance'']"

text \<open>The body of the \<open>forEach\<close> over the entries, on the array \<open>objectives\<close>.\<close>

definition objective_step :: "string \<Rightarrow> string list \<Rightarrow> string \<times> string \<Rightarrow> string list" where
  "objective_step allText objectives entry =
     (case entry of (keyword, objective) \<Rightarrow>
        if includes_str allText keyword then objectives @ [objective] else objectives)"

definition identifyBusinessObjectives ::
  "host \<Rightarrow> response list \<Rightarrow> string \<Rightarrow> js_error + string list" where
  "identifyBusinessObjectives h responses formTitle =
     bind_js (map_js (response_text h) responses) (\<lambda>texts.
       let allText = toLowerCase (join_strings '' '' (formTitle # texts));
           objectives = foldl (objective_step allText) [] objectiveKeywords;
           objectives = (if length objectives = 0 then objectives @ defaultObjectives
                         else objectives)
       in Inr (spread_Set objectives))"

definition identifyStakeholders :: "host \<Rightarrow> response list \<Rightarrow> string \<Rightarrow> js_error + string list" where
  "identifyStakeholders h responses clientName =
     (let stakeholders =
            [clientName @ '' - Primary Client'',
             ''Project Manager - Overall project coordination'',
             ''Business Analyst - Requirements analysis and documentation'',
             ''Development Team - System implementation'',
             ''Quality Assurance Team - Testing and validation'',
             ''End Users - System users and beneficiaries'']
      in bind_js (all_text h responses) (\<lambda>allText. Inr (stakeholders @
         (if includes_str allText ''admin'' \<or> includes_str allText ''administrator'' then
            [''System Administrator - System maintenance and configuration''] else []) @
         (if includes_str allText ''manager'' \<or> includes_str allText ''management'' then
            [''Management Team - Strategic oversight and approval''] else []) @
         (if includes_str allText ''customer'' \<or> includes_str allText ''client'' then
            [''Customer Support Team - User assistance and feedback''] else []) @
         (if includes_str allText ''finance'' \<or> includes_str allText ''accounting'' then
            [''Finance Team - Budget and financial oversight''] else []))))"

definition generateAssumptions :: "host \<Rightarrow> response list \<Rightarrow> js_error + string list" where
  "generateAssumptions h responses =
     (let assumptions =
            [''All required resources and personnel will be available as planned'',
             ''Stakeholders will provide timely feedback and approvals'',
             ''Technical infrastructure meets minimum system requirements'',
             ''User training will be provided before system deployment'',
             ''Data migration (if required) will be completed successfully'']
      in bind_js (all_text h responses) (\<lambda>allText. Inr (assumptions @
         (if includes_str allText ''integration'' then
            [''Third-party systems will be available for integration testing'',
             ''API documentation and access will be provided by external vendors''] else []) @
         (if includes_str allText ''data'' \<or> includes_str allText ''database'' then
            [''Data quality meets acceptable standards for migration'',
             ''Backup and recovery procedures are in place''] else []) @
         (if includes_str allText ''mobile'' \<or> includes_str allText ''app'' then
            [''Mobile device compatibility requirements are clearly defined''] else []))))"

definition identifyConstraints :: "host \<Rightarrow> response list \<Rightarrow> js_error + string list" where
  "identifyConstraints h responses =
     (let constraints =
            [''Project must be completed within approved budget'',
             ''Solution must comply with existing security policies'',
             ''System must integrate with current technology stack'',
             ''Implementation must minimize disruption to ongoing operations'']
      in bind_js (all_text h responses) (\<lambda>allText. Inr (constraints @
         (if includes_str allText ''budget'' \<or> includes_str allText ''cost'' then
            [''Budget limitations may impact scope and timeline''] else []) @
         (if includes_str allText ''timeline'' \<or> includes_str allText ''deadline'' then
            [''Fixed timeline requirements must be met''] else []) @
         (if includes_str allText ''legacy'' \<or> includes_str allText ''existing'' then
            [''Must maintain compatibility with legacy systems''] else []) @
         (if includes_str allText ''regulation'' \<or> includes_str allText ''compliance'' then
            [''Must adhere to regulatory and compliance requirements''] else []))))"

definition assessRisks :: "host \<Rightarrow> response list \<Rightarrow> js_error + string list" where
  "assessRisks h responses =
     (let risks =
            [''Technical complexity may lead to implementation delays'',
             ''Scope creep could impact timeline and budget'',
             ''Integration challenges with existing systems'',
             ''User adoption may be slower than anticipated'',
             ''Data quality issues could affect system performance'']
      in bind_js (all_text h responses) (\<lambda>allText. Inr (risks @
         (if includes_str allText ''integration'' \<or> includes_str allText ''api'' then
            [''Third-party system dependencies may cause integration delays''] else []) @
         (if includes_str allText ''performance'' \<or> includes_str allText ''load'' then
            [''Performance requirements may not be met under high load''] else []) @
         (if includes_str allText ''security'' then
            [''Security vulnerabilities could compromise system integrity''] else []) @
         (if includes_str allText ''data'' \<or> includes_str allText ''migration'' then
            [''Data migration complexity may cause project delays''] else []))))"

text \<open>The body of the \<open>forEach\<close> over the objectives, on the array \<open>criteria\<close>.\<close>

definition success_step :: "string list \<Rightarrow> string \<Rightarrow> string list" where
  "success_step criteria objective =
     criteria @
     (if includes_str objective ''efficiency'' then
        [''Process efficiency improvements are measurable and documented''] else []) @
     (if includes_str objective ''customer'' then
        [''Customer satisfaction scores meet or exceed targets''] else []) @
     (if includes_str objective ''automation'' then
        [''Manual process reduction is achieved as specified''] else [])"

definition defineSuccessCriteria :: "response list \<Rightarrow> string list \<Rightarrow> string list" where
  "defineSuccessCriteria responses objectives =
     (let criteria =
            [''All functional requirements are implemented and tested'',
             ''System performance meets specified benchmarks'',
             ''User acceptance testing is completed successfully'',
             ''System is deployed without critical issues'',
             ''User training is completed and feedback is positive'']
      in foldl success_step criteria objectives)"

text \<open>
  The template of the executive summary, with its three counts and its two joined lists
  as parameters. The paragraphs are separated by an empty line.
\<close>

definition summary_text ::
  "string \<Rightarrow> string \<Rightarrow> nat \<Rightarrow> nat \<Rightarrow> nat \<Rightarrow> string \<Rightarrow> string \<Rightarrow> string" where
  "summary_text formTitle clientName totalReqs nCategories highPriorityReqs aims focus =
     ''This Business Requirements Document (BRD) presents a comprehensive analysis of the '' @
     formTitle @ '' project for '' @ clientName @
     ''. Through systematic requirements gathering and analysis, we have identified '' @
     String_nat totalReqs @ '' distinct requirements across '' @
     String_nat nCategories @ '' major categories. Of these, '' @
     String_nat highPriorityReqs @
     '' are classified as high priority and require immediate attention during the '' @
     ''implementation phase.'' @
     [CHR 0x0A, CHR 0x0A] @
     ''The project aims to '' @ aims @
     ''. This document serves as the foundation for system design, development planning, '' @
     ''and project execution. All requirements have been analyzed for business value, '' @
     ''technical feasibility, and implementation priority to ensure successful project '' @
     ''delivery.'' @
     [CHR 0x0A, CHR 0x0A] @
     ''Key focus areas include '' @ focus @
     '', which represent the core functional domains of the proposed solution. The '' @
     ''requirements outlined in this document will guide the development team in creating '' @
     ''a solution that meets business objectives while maintaining technical excellence '' @
     ''and user satisfaction.''"

definition generateExecutiveSummary ::
  "string \<Rightarrow> string \<Rightarrow> RequirementItem list \<Rightarrow> string list \<Rightarrow> string" where
  "generateExecutiveSummary formTitle clientName requirements objectives =
     (let totalReqs = length requirements;
          highPriorityReqs = length (filter (\<lambda>r. req_priority r = High) requirements);
          categories = spread_Set (map (\<lambda>r. req_category r) requirements)
      in summary_text formTitle clientName totalReqs (length categories) highPriorityReqs
           (toLowerCase (join_strings '' and '' (take 2 objectives)))
           (join_strings '', '' (take 3 categories)))"

text \<open>
  \<open>if (formDescription)\<close> holds for a description that is given and not empty;
  \<open>responses?.length || 0\<close> is the number of responses, 0 when there is no array.
\<close>

definition generateProjectOverview ::
  "string \<Rightarrow> string option \<Rightarrow> response list option \<Rightarrow> string" where
  "generateProjectOverview formTitle formDescription responses =
     (let baseOverview =
            ''The '' @ formTitle @
            '' project represents a strategic initiative designed to address specific '' @
            ''business needs and operational requirements. '';
          given = (case formDescription of None \<Rightarrow> [] | Some d \<Rightarrow> d)
      in if given \<noteq> [] then
           baseOverview @ given @
           '' This project will deliver a comprehensive solution that aligns with '' @
           ''business objectives and provides measurable value to stakeholders.''
         else
           (let responseCount = (case responses of None \<Rightarrow> 0 | Some rs \<Rightarrow> length rs)
            in baseOverview @
               ''Based on comprehensive requirements gathering involving '' @
               String_nat responseCount @
               '' detailed response(s), this project will deliver a tailored solution that '' @
               ''addresses identified business needs and operational challenges. The '' @
               ''solution will be designed to provide immediate value while supporting '' @
               ''long-term business growth and scalability.''))"

section \<open>The analysis facade\<close>

definition performIntelligentAnalysis :: "host \<Rightarrow> AIAnalysisRequest \<Rightarrow> js_error + BRDAnalysis" where
  "performIntelligentAnalysis h data =
     (let formTitle = data_formTitle data;
          clientName = data_clientName data;
          formDescription = data_formDescription data;
          responses = data_responses data
      in bind_js (extractRequirements h responses) (\<lambda>requirements.
         bind_js (identifyBusinessObjectives h responses formTitle) (\<lambda>businessObjectives.
         bind_js (identifyStakeholders h responses clientName) (\<lambda>stakeholders.
         bind_js (generateAssumptions h responses) (\<lambda>assumptions.
         bind_js (identifyConstraints h responses) (\<lambda>constraints.
         bind_js (assessRisks h responses) (\<lambda>risks.
         let successCriteria = defineSuccessCriteria responses businessObjectives
         in Inr \<lparr> brd_executiveSummary =
                    generateExecutiveSummary formTitle clientName requirements businessObjectives,
                  brd_projectOverview =
                    generateProjectOverview formTitle formDescription (Some responses),
                  brd_businessObjectives = businessObjectives,
                  brd_stakeholders = stakeholders,
                  brd_requirements = requirements,
                  brd_assumptions = assumptions,
                  brd_constraints = constraints,
                  brd_risks = risks,
                  brd_successCriteria = successCriteria \<rparr>)))))))"

text \<open>
  \<open>analyzeBRD\<close> returns a promise: resolved with the result, or rejected with the error
  thrown. It is modelled by the result or the error.
\<close>

definition analyzeBRD :: "host \<Rightarrow> AIAnalysisRequest \<Rightarrow> js_error + BRDAnalysis" where
  "analyzeBRD h data = performIntelligentAnalysis h data"

section \<open>The specification's wording of the classifiers\<close>

text \<open>
  The specification describes \<open>categorizeRequirement\<close> as an ordered list of keyword
  groups, searched for the first group one of whose keywords occurs in the lower-cased
  question, with \<open>General Requirements\<close> when no group matches.
\<close>

definition categoryGroups :: "(string list \<times> string) list" where
  "categoryGroups =
     [([''function'', ''feature'', ''capability'', ''what should'', ''how should'', ''behavior''],
       ''Functional Requirements''),
      ([''performance'', ''speed'', ''load'', ''response time'', ''throughput'', ''scalability''],
       ''Performance Requirements''),
      ([''security'', ''authentication'', ''authorization'', ''access'', ''permission'', ''privacy''],
       ''Security Requirements''),
      ([''interface'', ''ui'', ''ux'', ''design'', ''layout'', ''appearance''],
       ''User Interface Requirements''),
      ([''integration'', ''api'', ''external'', ''third-party'', ''connect'', ''sync''],
       ''Integration Requirements''),
      ([''data'', ''database'', ''storage'', ''backup'', ''migration'', ''import''],
       ''Data Requirements''),
      ([''process'', ''workflow'', ''business'', ''procedure'', ''approval'', ''review''],
       ''Business Process Requirements''),
      ([''compliance'', ''regulation'', ''standard'', ''audit'', ''legal'', ''policy''],
       ''Compliance Requirements'')]"

text \<open>A text mentions a keyword list when one of the keywords occurs in its lower case.\<close>

definition mentions :: "string \<Rightarrow> string list \<Rightarrow> bool" where
  "mentions text keywords = (\<exists>k \<in> set keywords. sublist k (toLowerCase text))"

fun first_group :: "string \<Rightarrow> (string list \<times> string) list \<Rightarrow> string" where
  "first_group text [] = ''General Requirements''"
| "first_group text ((keywords, label) # groups) =
     (if mentions text keywords then label else first_group text groups)"

section \<open>A host for the examples\<close>

text \<open>
  A host for concrete runs. It parses the one date string \<open>2024-01-15\<close> (to its time
  value at midnight UTC) and no other string, and its renderings are constant: the
  examples use no number other than safe integers and 2.5, and no date other than this one.
\<close>

definition example_host :: host where
  "example_host =
     \<lparr> Number_toString = (\<lambda>q. ''2.5''),
       Date_parse = (\<lambda>s. if s = ''2024-01-15'' then Some 1705276800000 else None),
       locale_date_string = (\<lambda>t. ''1/15/2024''),
       format_PPP = (\<lambda>t. ''January 15th, 2024''),
       JSON_stringify = (\<lambda>v. ''{}'') \<rparr>"

section \<open>Properties\<close>

subsection \<open>Auxiliary facts\<close>

lemma startsWith_prefix: "startsWith s k \<longleftrightarrow> prefix k s"
  by (induction k arbitrary: s) (auto split: list.splits simp: prefix_Cons)

lemma includes_str_sublist: "includes_str s k \<longleftrightarrow> sublist k s"
  by (induction s) (auto simp: sublist_Cons_right startsWith_prefix)

lemma some_iff: "some p xs \<longleftrightarrow> (\<exists>x \<in> set xs. p x)"
  by (induction xs) auto

lemma Set_add_all_set: "set (Set_add_all acc xs) = set acc \<union> set xs"
  by (induction xs arbitrary: acc) auto

lemma Set_add_all_distinct: "distinct acc \<Longrightarrow> distinct (Set_add_all acc xs)"
  by (induction xs arbitrary: acc) auto


lemma spread_Set_length: "length (spread_Set xs) = card (set xs)"
proof -
  have "distinct (spread_Set xs)" by (simp add: spread_Set_def Set_add_all_distinct)
  moreover have "set (spread_Set xs) = set xs" by (simp add: spread_Set_def Set_add_all_set)
  ultimately show ?thesis by (metis distinct_card)
qed



lemma some_mentions:
  "some (\<lambda>keyword. includes_str (toLowerCase text) keyword) keywords \<longleftrightarrow> mentions text keywords"
  by (simp add: some_iff mentions_def includes_str_sublist)

lemma mentions_Cons:
  "mentions text (k # ks) \<longleftrightarrow> includes_str (toLowerCase text) k \<or> mentions text ks"
  by (simp add: mentions_def includes_str_sublist)

lemma mentions_Nil: "mentions text [] = False"
  by (simp add: mentions_def)

lemma lower_example:
  "toLowerCase ''What is critical for security access control?'' =
     ''what is critical for security access control?''"
  by (simp add: toLowerCase_def toLowerCase_char_def)

lemma String_nat_0: "String_nat 0 = ''0''"
  by (simp add: String_nat.simps)

lemma includes_str_middle: "includes_str (ps @ k @ ss) k"
  by (simp add: includes_str_sublist sublist_def) blast

lemma bind_js_Inl [simp]: "bind_js (Inl e) f = Inl e"
  by (simp add: bind_js_def)

lemma bind_js_Inr [simp]: "bind_js (Inr v) f = f v"
  by (simp add: bind_js_def)

lemma String_js_throws: "String_throws v \<Longrightarrow> String_js h v = Inl TypeError"
  by (simp add: String_js_def)

lemma String_js_text: "\<not> String_throws v \<Longrightarrow> String_js h v = Inr (String_text h v)"
  by (simp add: String_js_def)

lemma map_js_decide:
  assumes "\<And>x. f x = (if P x then Inl TypeError else Inr (g x))"
  shows "map_js f xs = (if list_ex P xs then Inl TypeError else Inr (map g xs))"
  by (induction xs) (simp_all add: assms)

lemma join_decide:
  "join h sep xs =
     (if list_ex String_throws xs then Inl TypeError
      else Inr (join_strings sep
             (map (\<lambda>x. if x = JNull \<or> x = JUndefined then [] else String_text h x) xs)))"
proof -
  have "map_js (\<lambda>x. if x = JNull \<or> x = JUndefined then Inr [] else String_js h x) xs =
      (if list_ex String_throws xs then Inl TypeError
       else Inr (map (\<lambda>x. if x = JNull \<or> x = JUndefined then [] else String_text h x) xs))"
    by (rule map_js_decide) (auto simp: String_js_def)
  then show ?thesis by (simp add: join_def)
qed

lemma formatAnswer_returns:
  "\<not> String_throws answer \<Longrightarrow> \<exists>s. formatAnswer h answer type = Inr s"
  by (cases answer) (auto simp: formatAnswer_def join_decide String_js_def try_catch_def
      split: sum.splits)

lemma determinePriority_returns:
  "\<not> String_throws answer \<Longrightarrow> \<exists>p. determinePriority h question answer = Inr p"
  by (simp add: determinePriority_def String_js_def Let_def)

lemma typeCriteria_decide:
  "typeCriteria h answer questionType =
     (if questionType = ''checkbox'' \<and> isArray answer then
        (if list_ex String_throws (elements answer) then Inl TypeError
         else Inr (map (\<lambda>item. ''System successfully supports: '' @ String_text h item)
                     (elements answer) @
                   [''All selected options are fully functional'']))
      else if questionType = ''number'' then
        (if String_throws answer then Inl TypeError
         else Inr [''Numeric value validation is implemented ('' @ String_text h answer @ '')'',
                   ''Input constraints are properly enforced''])
      else if questionType = ''email'' then
        Inr [''Email format validation is implemented'',
             ''Invalid email addresses are rejected'']
      else if questionType = ''date'' then
        Inr [''Date picker functionality is available'',
             ''Date format validation is implemented'',
             ''Invalid dates are handled appropriately'']
      else Inr [])"
proof -
  have "map_js (\<lambda>item. bind_js (String_js h item)
                     (\<lambda>text. Inr (''System successfully supports: '' @ text))) xs =
      (if list_ex String_throws xs then Inl TypeError
       else Inr (map (\<lambda>item. ''System successfully supports: '' @ String_text h item) xs))" for xs
    by (rule map_js_decide) (simp add: String_js_def)
  then show ?thesis by (simp add: typeCriteria_def String_js_def)
qed

lemma generateAcceptanceCriteria_returns:
  "\<not> String_throws answer \<Longrightarrow> \<exists>cs. generateAcceptanceCriteria h question answer questionType = Inr cs"
  by (cases answer) (simp_all add: generateAcceptanceCriteria_def typeCriteria_decide Let_def)

lemma assessBusinessValue_returns:
  "\<not> String_throws answer \<Longrightarrow> \<exists>v. assessBusinessValue h question answer = Inr v"
  by (simp add: assessBusinessValue_def String_js_def Let_def)

lemma makeRequirement_throws:
  "String_throws (r_answer r) \<Longrightarrow> makeRequirement h k r = Inl TypeError"
  by (simp add: makeRequirement_def determinePriority_def String_js_def Let_def)

lemma makeRequirement_returns:
  assumes "\<not> String_throws (r_answer r)"
  shows "\<exists>item. makeRequirement h k r = Inr item"
proof -
  obtain p where p: "determinePriority h (r_question r) (r_answer r) = Inr p"
    using determinePriority_returns [OF assms] by blast
  obtain d where d: "formatRequirementDescription h (r_question r) (r_answer r) (r_questionType r) = Inr d"
    using formatAnswer_returns [OF assms, of h "r_questionType r"]
    by (auto simp: formatRequirementDescription_def)
  obtain c where c: "generateAcceptanceCriteria h (r_question r) (r_answer r) (r_questionType r) = Inr c"
    using generateAcceptanceCriteria_returns [OF assms] by blast
  obtain v where v: "assessBusinessValue h (r_question r) (r_answer r) = Inr v"
    using assessBusinessValue_returns [OF assms] by blast
  show ?thesis by (simp add: makeRequirement_def Let_def p d c v)
qed

lemma makeRequirement_id:
  "makeRequirement h k r = Inr item \<Longrightarrow> req_id item = requirement_id k"
  by (auto simp: makeRequirement_def Let_def bind_js_def split: sum.splits)

lemma forEach_extract_throws:
  "list_ex (\<lambda>r. isValidResponse (r_answer r) \<and> String_throws (r_answer r)) rs \<Longrightarrow>
     forEach_js (extract_step h) (acc, n) rs = Inl TypeError"
proof (induction rs arbitrary: acc n)
  case Nil
  then show ?case by simp
next
  case (Cons r rs)
  show ?case
  proof (cases "isValidResponse (r_answer r)")
    case False
    with Cons show ?thesis by (simp add: extract_step_def)
  next
    case True
    show ?thesis
    proof (cases "String_throws (r_answer r)")
      case True
      with \<open>isValidResponse (r_answer r)\<close> show ?thesis
        by (simp add: extract_step_def makeRequirement_throws)
    next
      case False
      then obtain item where "makeRequirement h n r = Inr item"
        using makeRequirement_returns by blast
      with Cons True False show ?thesis by (simp add: extract_step_def)
    qed
  qed
qed

lemma forEach_extract_returns:
  "\<not> list_ex (\<lambda>r. isValidResponse (r_answer r) \<and> String_throws (r_answer r)) rs \<Longrightarrow>
     \<exists>items. forEach_js (extract_step h) (acc, n) rs =
         Inr (acc @ items, n + length (filter (\<lambda>r. isValidResponse (r_answer r)) rs)) \<and>
       list_all2 (\<lambda>item (k, r). makeRequirement h k r = Inr item) items
         (enumerate n (filter (\<lambda>r. isValidResponse (r_answer r)) rs))"
proof (induction rs arbitrary: acc n)
  case Nil
  then show ?case by simp
next
  case (Cons r rs)
  then have rest: "\<not> list_ex (\<lambda>r. isValidResponse (r_answer r) \<and> String_throws (r_answer r)) rs"
    by simp
  show ?case
  proof (cases "isValidResponse (r_answer r)")
    case False
    then show ?thesis using Cons.IH [OF rest, of acc n] by (simp add: extract_step_def)
  next
    case True
    with Cons.prems have "\<not> String_throws (r_answer r)" by simp
    then obtain item where item: "makeRequirement h n r = Inr item"
      using makeRequirement_returns by blast
    obtain items where
      run: "forEach_js (extract_step h) (acc @ [item], Suc n) rs =
         Inr ((acc @ [item]) @ items, Suc n + length (filter (\<lambda>r. isValidResponse (r_answer r)) rs))"
      and rel: "list_all2 (\<lambda>item (k, r). makeRequirement h k r = Inr item) items
         (enumerate (Suc n) (filter (\<lambda>r. isValidResponse (r_answer r)) rs))"
      using Cons.IH [OF rest, of "acc @ [item]" "Suc n"] by blast
    have "forEach_js (extract_step h) (acc, n) (r # rs) =
        Inr (acc @ (item # items), n + length (filter (\<lambda>r. isValidResponse (r_answer r)) (r # rs)))"
      using True item run by (simp add: extract_step_def)
    moreover have "list_all2 (\<lambda>item (k, r). makeRequirement h k r = Inr item) (item # items)
         (enumerate n (filter (\<lambda>r. isValidResponse (r_answer r)) (r # rs)))"
      using True item rel by simp
    ultimately show ?thesis by blast
  qed
qed

lemma extract_step_invalid:
  "\<not> isValidResponse (r_answer r) \<Longrightarrow> extract_step h st r = Inr st"
  by (cases st) (simp add: extract_step_def)

lemma forEach_extract_filter:
  "forEach_js (extract_step h) st (filter (\<lambda>r. isValidResponse (r_answer r)) rs) =
     forEach_js (extract_step h) st rs"
proof (induction rs arbitrary: st)
  case Nil
  then show ?case by simp
next
  case (Cons r rs)
  show ?case
  proof (cases "isValidResponse (r_answer r)")
    case True
    then show ?thesis by (simp add: Cons.IH)
  next
    case False
    then show ?thesis by (simp add: Cons.IH extract_step_invalid)
  qed
qed


subsection \<open>The validity predicate\<close>

lemma isValidResponse_cases:
  "isValidResponse a \<longleftrightarrow>
     (case a of
        JNull \<Rightarrow> False
      | JUndefined \<Rightarrow> False
      | JBool b \<Rightarrow> b
      | JNum n \<Rightarrow> n \<noteq> NaN \<and> n \<noteq> NegZero \<and> n \<noteq> Fin 0
      | JStr s \<Rightarrow> s \<noteq> [] \<and> s \<noteq> ''No answer provided''
      | JArr xs \<Rightarrow> xs \<noteq> []
      | JObj kvs \<Rightarrow> True)"
  by (cases a) (auto simp: isValidResponse_def)

text \<open>
  Claim C3. \<open>isValidResponse\<close> is false exactly on the falsy answers (\<open>null\<close>,
  \<open>undefined\<close>, numeric zero of either sign, \<open>false\<close>, the empty string, \<open>NaN\<close>), on the
  empty array, and on the string \<open>No answer provided\<close>; on every other answer it is true.
\<close>

theorem isValidResponse_false_iff:
  "isValidResponse a = False \<longleftrightarrow>
     a \<in> {JNull, JUndefined, JNum (Fin 0), JNum NegZero, JBool False, JStr '''', JNum NaN,
          JArr [], JStr ''No answer provided''}"
  by (cases a) (auto simp: isValidResponse_def)

subsection \<open>Requirement extraction\<close>

text \<open>
  Claim C1, as amended. \<open>extractRequirements\<close> throws a \<open>TypeError\<close> when the answer of
  a valid response makes \<open>String\<close> throw (it is, or holds in an array, an object with an
  own key \<open>toString\<close>). On every other list of responses it makes one requirement for
  each response whose answer \<open>isValidResponse\<close> accepts, in input order; the \<open>k\<close>-th of
  them (from 1) has the id \<open>REQ-\<close> followed by \<open>k\<close> padded with zeros to 3 digits. The
  other responses make no requirement and do not advance the counter: removing them
  leaves the outcome unchanged.
\<close>

theorem extractRequirements_dense_ids:
  "(if list_ex (\<lambda>r. isValidResponse (r_answer r) \<and> String_throws (r_answer r)) rs
    then extractRequirements h rs = Inl TypeError
    else \<exists>reqs. extractRequirements h rs = Inr reqs
           \<and> list_all2 (\<lambda>req (k, r). makeRequirement h k r = Inr req) reqs
               (zip [1 ..< Suc (length (filter (\<lambda>r. isValidResponse (r_answer r)) rs))]
                    (filter (\<lambda>r. isValidResponse (r_answer r)) rs))
           \<and> length reqs = length (filter (\<lambda>r. isValidResponse (r_answer r)) rs)
           \<and> map req_id reqs =
               map (\<lambda>k. ''REQ-'' @ padStart 3 (CHR ''0'') (String_nat k))
                 [1 ..< Suc (length (filter (\<lambda>r. isValidResponse (r_answer r)) rs))])
   \<and> extractRequirements h (filter (\<lambda>r. isValidResponse (r_answer r)) rs) = extractRequirements h rs"
proof (intro conjI)
  let ?vs = "filter (\<lambda>r. isValidResponse (r_answer r)) rs"
  let ?bad = "list_ex (\<lambda>r. isValidResponse (r_answer r) \<and> String_throws (r_answer r)) rs"
  show "extractRequirements h ?vs = extractRequirements h rs"
    by (simp add: extractRequirements_def forEach_extract_filter)
  show "if ?bad then extractRequirements h rs = Inl TypeError
    else \<exists>reqs. extractRequirements h rs = Inr reqs
           \<and> list_all2 (\<lambda>req (k, r). makeRequirement h k r = Inr req) reqs
               (zip [1 ..< Suc (length ?vs)] ?vs)
           \<and> length reqs = length ?vs
           \<and> map req_id reqs =
               map (\<lambda>k. ''REQ-'' @ padStart 3 (CHR ''0'') (String_nat k)) [1 ..< Suc (length ?vs)]"
  proof (cases ?bad)
    case True
    then show ?thesis
      by (simp add: extractRequirements_def forEach_extract_throws)
  next
    case False
    then obtain reqs where
      run: "forEach_js (extract_step h) ([], 1) rs = Inr ([] @ reqs, 1 + length ?vs)"
      and rel: "list_all2 (\<lambda>item (k, r). makeRequirement h k r = Inr item) reqs (enumerate 1 ?vs)"
      using forEach_extract_returns [of rs h "[]" 1] by blast
    have res: "extractRequirements h rs = Inr reqs"
      using run by (simp add: extractRequirements_def)
    have rel': "list_all2 (\<lambda>req (k, r). makeRequirement h k r = Inr req) reqs
        (zip [1 ..< Suc (length ?vs)] ?vs)"
      using rel by (simp add: enumerate_eq_zip del: upt_Suc)
    have len: "length reqs = length ?vs"
      using rel by (auto dest: list_all2_lengthD)
    have ids: "map req_id reqs =
        map (\<lambda>k. ''REQ-'' @ padStart 3 (CHR ''0'') (String_nat k)) [1 ..< Suc (length ?vs)]"
    proof -
      have "map req_id reqs = map requirement_id (map fst (enumerate 1 ?vs))"
        using rel
        by (induction rule: list_all2_induct) (auto dest: makeRequirement_id)
      also have "map fst (enumerate 1 ?vs) = [1 ..< Suc (length ?vs)]"
        by (simp del: upt_Suc)
      also have "requirement_id = (\<lambda>k. ''REQ-'' @ padStart 3 (CHR ''0'') (String_nat k))"
        by (simp add: requirement_id_def fun_eq_iff)
      finally show ?thesis .
    qed
    from False res rel' len ids show ?thesis by auto
  qed
qed

theorem extractRequirements_dense_ids_witness:
  "\<not> list_ex (\<lambda>r. isValidResponse (r_answer r) \<and> String_throws (r_answer r))
       [\<lparr>r_question = ''Name'', r_answer = JStr ''Ada'', r_questionType = ''text''\<rparr>,
        \<lparr>r_question = ''Budget'', r_answer = JNull, r_questionType = ''number''\<rparr>,
        \<lparr>r_question = ''Goals'', r_answer = JArr [JStr ''x''], r_questionType = ''checkbox''\<rparr>] \<and>
   (\<exists>reqs. extractRequirements example_host
       [\<lparr>r_question = ''Name'', r_answer = JStr ''Ada'', r_questionType = ''text''\<rparr>,
        \<lparr>r_question = ''Budget'', r_answer = JNull, r_questionType = ''number''\<rparr>,
        \<lparr>r_question = ''Goals'', r_answer = JArr [JStr ''x''], r_questionType = ''checkbox''\<rparr>]
       = Inr reqs \<and>
     length reqs = 2 \<and> map req_id reqs = [''REQ-001'', ''REQ-002''])"
proof -
  let ?rs = "[\<lparr>r_question = ''Name'', r_answer = JStr ''Ada'', r_questionType = ''text''\<rparr>,
        \<lparr>r_question = ''Budget'', r_answer = JNull, r_questionType = ''number''\<rparr>,
        \<lparr>r_question = ''Goals'', r_answer = JArr [JStr ''x''], r_questionType = ''checkbox''\<rparr>]"
  have ok: "\<not> list_ex (\<lambda>r. isValidResponse (r_answer r) \<and> String_throws (r_answer r)) ?rs"
    by simp
  have n: "length (filter (\<lambda>r. isValidResponse (r_answer r)) ?rs) = 2"
    by (simp add: isValidResponse_def)
  have ids: "map (\<lambda>k. ''REQ-'' @ padStart 3 (CHR ''0'') (String_nat k)) [1 ..< Suc 2] =
      [''REQ-001'', ''REQ-002'']"
    by (simp add: padStart_def String_nat.simps upt_rec numeral_2_eq_2 numeral_3_eq_3)
  from extractRequirements_dense_ids [of ?rs example_host] ok
  obtain reqs where "extractRequirements example_host ?rs = Inr reqs"
    and "length reqs = length (filter (\<lambda>r. isValidResponse (r_answer r)) ?rs)"
    and "map req_id reqs =
        map (\<lambda>k. ''REQ-'' @ padStart 3 (CHR ''0'') (String_nat k))
          [1 ..< Suc (length (filter (\<lambda>r. isValidResponse (r_answer r)) ?rs))]"
    by (auto simp only: if_False)
  then have "extractRequirements example_host ?rs = Inr reqs \<and> length reqs = 2 \<and>
      map req_id reqs = [''REQ-001'', ''REQ-002'']"
    by (simp only: n ids)
  then show ?thesis
    apply (intro conjI)
     apply (rule ok)
    apply (rule exI [of _ reqs])
    apply assumption
    done
qed

theorem extractRequirements_throws_counterexample:
  "isValidResponse (JObj [(''toString'', JNum (Fin 1))]) \<and>
   extractRequirements example_host
     [\<lparr>r_question = ''Notes'', r_answer = JObj [(''toString'', JNum (Fin 1))], r_questionType = ''text''\<rparr>] = Inl TypeError"
  by (simp add: isValidResponse_def extractRequirements_def extract_step_def
      makeRequirement_throws)

lemma extractRequirements_example:
  "map_sum id (map req_id)
     (extractRequirements h
        [\<lparr>r_question = ''Name'', r_answer = JStr ''Ada'', r_questionType = ''text''\<rparr>,
         \<lparr>r_question = ''Budget'', r_answer = JNull, r_questionType = ''number''\<rparr>,
         \<lparr>r_question = ''Users'', r_answer = JNum (Fin 0), r_questionType = ''number''\<rparr>,
         \<lparr>r_question = ''Goals'', r_answer = JArr [JStr ''x''], r_questionType = ''checkbox''\<rparr>])
   = Inr [''REQ-001'', ''REQ-002'']"
  by (simp add: extractRequirements_def extract_step_def isValidResponse_def makeRequirement_def
      determinePriority_def formatRequirementDescription_def formatAnswer_def join_def
      generateAcceptanceCriteria_def typeCriteria_def assessBusinessValue_def String_js_def
      Let_def requirement_id_def padStart_def String_nat.simps numeral_3_eq_3)

subsection \<open>The response normalizer\<close>




text \<open>
  Claim C2. On a date question, \<open>formatAnswer\<close> of \<open>AIService\<close> does not fall back to
  the answer's string form when the answer does not give a valid date (a string the host
  cannot parse, or a number such as \<open>NaN\<close>): \<open>toLocaleDateString\<close> does not throw on
  the invalid date, the \<open>catch\<close> branch is not taken, and the result is the text
  \<open>Invalid Date\<close>. The same function of \<open>BRDGenerator\<close>, whose \<open>format\<close> throws
  there, does return the answer's string form.
\<close>

theorem formatAnswer_unparsable_date:
  "answer \<noteq> JNull \<Longrightarrow> answer \<noteq> JUndefined \<Longrightarrow> \<not> isArray answer \<Longrightarrow>
   new_Date h answer = Inr Invalid_Date \<Longrightarrow>
     formatAnswer h answer ''date'' = Inr ''Invalid Date'' \<and>
     BRDGenerator_formatAnswer h answer ''date'' = String_js h answer"
  by (simp add: formatAnswer_def BRDGenerator_formatAnswer_def try_catch_def)

theorem formatAnswer_unparsable_date_witness:
  "JStr ''not a date'' \<noteq> JNull \<and> JStr ''not a date'' \<noteq> JUndefined \<and>
   \<not> isArray (JStr ''not a date'') \<and>
   new_Date example_host (JStr ''not a date'') = Inr Invalid_Date \<and>
   formatAnswer example_host (JStr ''not a date'') ''date'' = Inr ''Invalid Date'' \<and>
   BRDGenerator_formatAnswer example_host (JStr ''not a date'') ''date'' = Inr ''not a date''"
proof -
  have p: "new_Date example_host (JStr ''not a date'') = Inr Invalid_Date"
    by (simp add: example_host_def Date_of_string_def)
  show ?thesis
    using p formatAnswer_unparsable_date [of "JStr ''not a date''" example_host]
    by (simp add: String_js_def)
qed

text \<open>
  On a date question whose answer is an object with an own key \<open>toString\<close>, both
  functions throw: \<open>new Date\<close> throws, and so does \<open>String\<close> in the \<open>catch\<close> branch.
\<close>

lemma formatAnswer_date_throws:
  "formatAnswer h (JObj [(''toString'', JNum (Fin 1))]) ''date'' = Inl TypeError \<and>
   BRDGenerator_formatAnswer h (JObj [(''toString'', JNum (Fin 1))]) ''date'' = Inl TypeError"
  by (simp add: formatAnswer_def BRDGenerator_formatAnswer_def try_catch_def String_js_def)

subsection \<open>The classifiers\<close>

text \<open>
  Claim C4. \<open>categorizeRequirement\<close> is the search of the eight keyword groups, in the
  order Functional, Performance, Security, User Interface, Integration, Data, Business
  Process, Compliance, for the first group that the lower-cased question mentions, with
  \<open>General Requirements\<close> when there is none. The question
  \<open>What is critical for security access control?\<close> is a Security requirement, and a
  question that mentions both a function and performance is a Functional one.
\<close>

theorem categorizeRequirement_first_group:
  "categorizeRequirement question questionType = first_group question categoryGroups
   \<and> map snd categoryGroups =
       [''Functional Requirements'', ''Performance Requirements'', ''Security Requirements'',
        ''User Interface Requirements'', ''Integration Requirements'', ''Data Requirements'',
        ''Business Process Requirements'', ''Compliance Requirements'']
   \<and> categorizeRequirement ''What is critical for security access control?'' questionType =
       ''Security Requirements''
   \<and> categorizeRequirement ''Which function affects performance?'' questionType =
       ''Functional Requirements''"
proof (intro conjI)
  show "categorizeRequirement question questionType = first_group question categoryGroups"
    by (simp add: categorizeRequirement_def categoryGroups_def mentions_Cons mentions_Nil Let_def)
  show "map snd categoryGroups =
       [''Functional Requirements'', ''Performance Requirements'', ''Security Requirements'',
        ''User Interface Requirements'', ''Integration Requirements'', ''Data Requirements'',
        ''Business Process Requirements'', ''Compliance Requirements'']"
    by (simp add: categoryGroups_def)
  show "categorizeRequirement ''What is critical for security access control?'' questionType =
       ''Security Requirements''"
    by (simp add: categorizeRequirement_def lower_example)
  show "categorizeRequirement ''Which function affects performance?'' questionType =
       ''Functional Requirements''"
    by (simp add: categorizeRequirement_def toLowerCase_def toLowerCase_char_def)
qed

text \<open>
  Claim C5, as amended. \<open>determinePriority\<close> converts the answer to a string before its
  first test, so it throws a \<open>TypeError\<close>, whatever the question says, when that
  conversion throws (the answer is, or holds in an array, an object with an own key
  \<open>toString\<close>). On every other answer it is a chain in which each tier is reached only
  when all earlier tiers found nothing: High when the question mentions one of the 12
  urgency keywords, else Low when it mentions one of the 10 deferral keywords, else High
  and then Low by the same tests on the answer's string form, else High for a string
  answer of more than 100 characters, else High for an array answer of more than 3
  elements, else Medium.
\<close>

theorem determinePriority_chain:
  "determinePriority h question answer =
     (if String_throws answer then Inl TypeError
      else Inr (if mentions question highPriorityKeywords then High
                else if mentions question lowPriorityKeywords then Low
                else if mentions (String_text h answer) highPriorityKeywords then High
                else if mentions (String_text h answer) lowPriorityKeywords then Low
                else (case answer of
                        JStr s \<Rightarrow> if length s > 100 then High else Medium
                      | JArr xs \<Rightarrow> if length xs > 3 then High else Medium
                      | _ \<Rightarrow> Medium)))
   \<and> String_js h answer =
       (if String_throws answer then Inl TypeError else Inr (String_text h answer))
   \<and> length highPriorityKeywords = 12 \<and> distinct highPriorityKeywords
   \<and> length lowPriorityKeywords = 10 \<and> distinct lowPriorityKeywords"
proof (intro conjI)
  show "determinePriority h question answer =
     (if String_throws answer then Inl TypeError
      else Inr (if mentions question highPriorityKeywords then High
                else if mentions question lowPriorityKeywords then Low
                else if mentions (String_text h answer) highPriorityKeywords then High
                else if mentions (String_text h answer) lowPriorityKeywords then Low
                else (case answer of
                        JStr s \<Rightarrow> if length s > 100 then High else Medium
                      | JArr xs \<Rightarrow> if length xs > 3 then High else Medium
                      | _ \<Rightarrow> Medium)))"
    unfolding determinePriority_def Let_def String_js_def some_mentions
    by (cases answer) simp_all
  show "String_js h answer =
       (if String_throws answer then Inl TypeError else Inr (String_text h answer))"
    by (simp add: String_js_def)
  show "length highPriorityKeywords = 12" by (simp add: highPriorityKeywords_def)
  show "distinct highPriorityKeywords" by (simp add: highPriorityKeywords_def)
  show "length lowPriorityKeywords = 10" by (simp add: lowPriorityKeywords_def)
  show "distinct lowPriorityKeywords" by (simp add: lowPriorityKeywords_def)
qed

theorem determinePriority_chain_witness:
  "\<not> String_throws (JStr ''Yes'') \<and>
   determinePriority example_host ''What is critical for security access control?'' (JStr ''Yes'')
     = Inr High"
  using determinePriority_chain
    [of example_host "''What is critical for security access control?''" "JStr ''Yes''"]
  by (simp add: highPriorityKeywords_def mentions_Cons lower_example)

theorem determinePriority_throws_counterexample:
  "includes_str (toLowerCase ''Is this critical?'') ''critical'' \<and>
   determinePriority example_host ''Is this critical?'' (JObj [(''toString'', JNum (Fin 1))]) = Inl TypeError"
  by (simp add: determinePriority_def String_js_def toLowerCase_def toLowerCase_char_def)

lemma determinePriority_example:
  "determinePriority h ''What is critical for security access control?'' (JStr ''Yes'') = Inr High"
  by (simp add: determinePriority_def String_js_def highPriorityKeywords_def lower_example)

subsection \<open>Acceptance criteria\<close>




subsection \<open>The narrative synthesizer\<close>




lemma identifyBusinessObjectives_example:
  "identifyBusinessObjectives h
     [\<lparr>r_question = ''Security needs?'', r_answer = JStr ''Customer data'', r_questionType = ''text''\<rparr>]
     ''Portal'' =
   Inr [''Enhance customer experience and satisfaction'',
        ''Strengthen security measures and ensure data protection'']"
proof -
  have texts: "map_js (response_text h)
      [\<lparr>r_question = ''Security needs?'', r_answer = JStr ''Customer data'', r_questionType = ''text''\<rparr>]
      = Inr [''Security needs? Customer data'']"
    by (simp add: response_text_def String_js_def)
  have low: "toLowerCase ''Portal Security needs? Customer data'' =
      ''portal security needs? customer data''"
    by (simp add: toLowerCase_def toLowerCase_char_def)
  have "foldl (objective_step ''portal security needs? customer data'') [] objectiveKeywords =
      [''Enhance customer experience and satisfaction'',
       ''Strengthen security measures and ensure data protection'']"
    by (simp add: objectiveKeywords_def objective_step_def)
  then show ?thesis
    unfolding identifyBusinessObjectives_def texts
    by (simp add: low Let_def spread_Set_def)
qed

text \<open>
  Claim C8. The counts in the executive summary are computed from the requirements passed
  in: the total is the length of the list, the number of categories is the number of
  distinct category values, and the number of high-priority requirements is the number of
  entries whose priority is High. The summary's first paragraph spells the three counts
  out; for the empty list they are 0, 0 and 0.
\<close>

theorem generateExecutiveSummary_counts:
  "generateExecutiveSummary formTitle clientName requirements objectives =
     summary_text formTitle clientName
       (length requirements)
       (card (set (map req_category requirements)))
       (length (filter (\<lambda>r. req_priority r = High) requirements))
       (toLowerCase (join_strings '' and '' (take 2 objectives)))
       (join_strings '', '' (take 3 (spread_Set (map req_category requirements))))
   \<and> generateExecutiveSummary formTitle clientName [] objectives =
       summary_text formTitle clientName 0 0 0
         (toLowerCase (join_strings '' and '' (take 2 objectives))) []
   \<and> includes_str (summary_text formTitle clientName totalReqs nCategories highPriorityReqs aims focus)
       (''we have identified '' @ String_nat totalReqs @ '' distinct requirements across '' @
        String_nat nCategories @ '' major categories. Of these, '' @
        String_nat highPriorityReqs @ '' are classified as high priority'')
   \<and> includes_str (generateExecutiveSummary formTitle clientName [] objectives)
       ''we have identified 0 distinct requirements across 0 major categories. Of these, 0 are classified as high priority''"
proof (intro conjI)
  show g: "generateExecutiveSummary formTitle clientName requirements objectives =
     summary_text formTitle clientName
       (length requirements)
       (card (set (map req_category requirements)))
       (length (filter (\<lambda>r. req_priority r = High) requirements))
       (toLowerCase (join_strings '' and '' (take 2 objectives)))
       (join_strings '', '' (take 3 (spread_Set (map req_category requirements))))"
    by (simp add: generateExecutiveSummary_def Let_def spread_Set_length)
  show e: "generateExecutiveSummary formTitle clientName [] objectives =
       summary_text formTitle clientName 0 0 0
         (toLowerCase (join_strings '' and '' (take 2 objectives))) []"
    by (simp add: generateExecutiveSummary_def Let_def spread_Set_def)
  let ?k = "\<lambda>a b c. ''we have identified '' @ String_nat a @ '' distinct requirements across '' @
        String_nat b @ '' major categories. Of these, '' @
        String_nat c @ '' are classified as high priority''"
  have inc: "includes_str (summary_text ft cn a b c aims focus) (?k a b c)" for ft cn a b c aims focus
  proof -
    have "\<exists>ps ss. summary_text ft cn a b c aims focus = ps @ ?k a b c @ ss"
      unfolding summary_text_def
      apply (rule exI [of _ "''This Business Requirements Document (BRD) presents a comprehensive analysis of the '' @ ft @ '' project for '' @ cn @ ''. Through systematic requirements gathering and analysis, ''"])
      apply (rule exI [of _ "'' and require immediate attention during the implementation phase.'' @
     [CHR 0x0A, CHR 0x0A] @
     ''The project aims to '' @ aims @
     ''. This document serves as the foundation for system design, development planning, '' @
     ''and project execution. All requirements have been analyzed for business value, '' @
     ''technical feasibility, and implementation priority to ensure successful project '' @
     ''delivery.'' @
     [CHR 0x0A, CHR 0x0A] @
     ''Key focus areas include '' @ focus @
     '', which represent the core functional domains of the proposed solution. The '' @
     ''requirements outlined in this document will guide the development team in creating '' @
     ''a solution that meets business objectives while maintaining technical excellence '' @
     ''and user satisfaction.''"])
      apply simp
      done
    then show ?thesis using includes_str_middle by metis
  qed
  show "includes_str (summary_text formTitle clientName totalReqs nCategories highPriorityReqs aims focus)
       (''we have identified '' @ String_nat totalReqs @ '' distinct requirements across '' @
        String_nat nCategories @ '' major categories. Of these, '' @
        String_nat highPriorityReqs @ '' are classified as high priority'')"
    by (rule inc)
  show "includes_str (generateExecutiveSummary formTitle clientName [] objectives)
       ''we have identified 0 distinct requirements across 0 major categories. Of these, 0 are classified as high priority''"
    using inc [of formTitle clientName 0 0 0 "toLowerCase (join_strings '' and '' (take 2 objectives))" "[]"]
    by (simp add: e String_nat_0)
qed

end
